theory Spec2Isabelle
  imports Complex_Main "HOL-Library.Sublist"
begin

section \<open>Heart-rate variability features of BioSPPy (biosppy/signals/hrv.py)\<close>

text \<open>
  The module works on NumPy arrays of double-precision numbers. In this development a
  finite array element is a real number (rounding is not modelled), and the three
  non-finite results NumPy can produce from finite operands (division by zero, the
  logarithm of zero, the mean of an empty array) are the values \<open>PInf\<close>, \<open>NInf\<close> and
  \<open>NaN\<close> of the type \<open>npfloat\<close>. Signed zeros are not distinguished. Every exception
  the Python code can raise is a value of the type \<open>error\<close>.
\<close>

subsection \<open>Errors and NumPy numbers\<close>

datatype reason =
    Missing_input        \<comment> \<open>"Please specify an RRI list or array."\<close>
  | Unknown_choice       \<comment> \<open>"... is not an available input."\<close>
  | Too_short            \<comment> \<open>"Signal duration must be greater than ... seconds ..."\<close>
  | Zero_size            \<comment> \<open>a NumPy or builtin max/min of an empty sequence\<close>
  | Library              \<comment> \<open>a \<open>ValueError\<close> raised inside an external routine\<close>

datatype error =
    TypeError
  | ValueError reason
  | IndexError
  | KeyError
  | ZeroDivisionError
  | LibraryError         \<comment> \<open>any other exception raised inside an external routine\<close>

datatype npfloat = Fin real | PInf | NInf | NaN

fun np_neg :: "npfloat \<Rightarrow> npfloat" where
  "np_neg (Fin x) = Fin (- x)"
| "np_neg PInf = NInf"
| "np_neg NInf = PInf"
| "np_neg NaN = NaN"

fun np_add :: "npfloat \<Rightarrow> npfloat \<Rightarrow> npfloat" where
  "np_add NaN _ = NaN"
| "np_add _ NaN = NaN"
| "np_add (Fin x) (Fin y) = Fin (x + y)"
| "np_add PInf NInf = NaN"
| "np_add NInf PInf = NaN"
| "np_add PInf _ = PInf"
| "np_add _ PInf = PInf"
| "np_add NInf _ = NInf"
| "np_add _ NInf = NInf"

definition np_sub :: "npfloat \<Rightarrow> npfloat \<Rightarrow> npfloat" where
  "np_sub a b = np_add a (np_neg b)"

fun np_mul :: "npfloat \<Rightarrow> npfloat \<Rightarrow> npfloat" where
  "np_mul NaN _ = NaN"
| "np_mul _ NaN = NaN"
| "np_mul (Fin x) (Fin y) = Fin (x * y)"
| "np_mul PInf (Fin y) = (if y = 0 then NaN else if 0 < y then PInf else NInf)"
| "np_mul NInf (Fin y) = (if y = 0 then NaN else if 0 < y then NInf else PInf)"
| "np_mul (Fin x) PInf = (if x = 0 then NaN else if 0 < x then PInf else NInf)"
| "np_mul (Fin x) NInf = (if x = 0 then NaN else if 0 < x then NInf else PInf)"
| "np_mul PInf PInf = PInf"
| "np_mul NInf NInf = PInf"
| "np_mul PInf NInf = NInf"
| "np_mul NInf PInf = NInf"

fun np_divide :: "npfloat \<Rightarrow> npfloat \<Rightarrow> npfloat" where
  "np_divide NaN _ = NaN"
| "np_divide _ NaN = NaN"
| "np_divide (Fin x) (Fin y) =
     (if y = 0 then (if x = 0 then NaN else if 0 < x then PInf else NInf) else Fin (x / y))"
| "np_divide (Fin x) _ = Fin 0"
| "np_divide PInf (Fin y) = (if 0 \<le> y then PInf else NInf)"
| "np_divide NInf (Fin y) = (if 0 \<le> y then NInf else PInf)"
| "np_divide _ _ = NaN"

definition np_div :: "real \<Rightarrow> real \<Rightarrow> npfloat" where
  "np_div x y = np_divide (Fin x) (Fin y)"

fun np_log :: "npfloat \<Rightarrow> npfloat" where
  "np_log (Fin x) = (if 0 < x then Fin (ln x) else if x = 0 then NInf else NaN)"
| "np_log PInf = PInf"
| "np_log NInf = NaN"
| "np_log NaN = NaN"

text \<open>\<open>x ** 0.5\<close>\<close>

fun np_pow_half :: "npfloat \<Rightarrow> npfloat" where
  "np_pow_half (Fin x) = (if 0 \<le> x then Fin (sqrt x) else NaN)"
| "np_pow_half PInf = PInf"
| "np_pow_half NInf = PInf"
| "np_pow_half NaN = NaN"

fun np_lt :: "npfloat \<Rightarrow> npfloat \<Rightarrow> bool" where
  "np_lt NaN _ = False"
| "np_lt _ NaN = False"
| "np_lt (Fin x) (Fin y) = (x < y)"
| "np_lt _ NInf = False"
| "np_lt PInf _ = False"
| "np_lt _ PInf = True"
| "np_lt NInf _ = True"

fun np_le :: "npfloat \<Rightarrow> npfloat \<Rightarrow> bool" where
  "np_le NaN _ = False"
| "np_le _ NaN = False"
| "np_le (Fin x) (Fin y) = (x \<le> y)"
| "np_le NInf _ = True"
| "np_le _ PInf = True"
| "np_le _ _ = False"

definition np_sum :: "npfloat list \<Rightarrow> npfloat" where
  "np_sum xs = foldl np_add (Fin 0) xs"

definition np_mean :: "real list \<Rightarrow> npfloat" where
  "np_mean xs = np_div (sum_list xs) (real (length xs))"

text \<open>\<open>ndarray.std()\<close>: the population standard deviation; \<open>NaN\<close> for an empty array.\<close>

definition mean :: "real list \<Rightarrow> real" where
  "mean xs = sum_list xs / real (length xs)"

definition np_std :: "real list \<Rightarrow> npfloat" where
  "np_std xs =
     (if xs = [] then NaN
      else Fin (sqrt (mean (map (\<lambda>x. (abs (x - mean xs))\<^sup>2) xs))))"

text \<open>\<open>np.diff\<close> of a one-dimensional array.\<close>

fun np_diff :: "real list \<Rightarrow> real list" where
  "np_diff (x # y # xs) = (y - x) # np_diff (y # xs)"
| "np_diff _ = []"

subsection \<open>Interval builder and RRI filter\<close>

text \<open>
  \<open>compute_rri\<close> returns the intervals together with a flag that tells whether
  \<open>warnings.warn\<close> was called. \<open>rri.min()\<close> raises \<open>ValueError\<close> on an empty array.
  The sampling rate is a non-zero float (a zero rate makes NumPy produce non-finite
  intervals, which a \<open>real list\<close> does not hold).
\<close>

definition compute_rri :: "real list \<Rightarrow> real \<Rightarrow> error + (real list \<times> bool)" where
  "compute_rri rpeaks sampling_rate =
     (let rri = map (\<lambda>d. (1000 * d) / sampling_rate) (np_diff rpeaks) in
      if rri = [] then Inl (ValueError Zero_size)
      else Inr (rri, Min (set rri) < 400 \<or> Min (set rri) > 1400))"

definition rri_filter :: "real list \<Rightarrow> real \<Rightarrow> real list" where
  "rri_filter rri threshold = filter (\<lambda>x. x < threshold) rri"

subsection \<open>Sample entropy and approximate entropy\<close>

text \<open>
  \<open>templates rri m k\<close> is \<open>[rri[i : i + m] for i in range(k)]\<close>. A Python range with a
  negative bound is empty, so \<open>range(n - m)\<close> is \<open>[0..<n - m]\<close> and \<open>range(n - m + 1)\<close> is
  \<open>[0..<n + 1 - m]\<close> over the naturals.
\<close>

definition templates :: "real list \<Rightarrow> nat \<Rightarrow> nat \<Rightarrow> real list list" where
  "templates rri m k = map (\<lambda>i. take m (drop i rri)) [0..<k]"

text \<open>\<open>np.abs(u - v).max()\<close>, and \<open>_maxdist\<close> of \<open>approximate_entropy\<close>, on non-empty rows.\<close>

definition chebyshev :: "real list \<Rightarrow> real list \<Rightarrow> real" where
  "chebyshev u v = Max (set (map2 (\<lambda>a b. \<bar>a - b\<bar>) u v))"

text \<open>\<open>np.sum(np.abs(x - xs).max(axis=1) <= r)\<close>: the rows of \<open>xs\<close> within \<open>r\<close> of \<open>x\<close>.\<close>

definition count_within :: "npfloat \<Rightarrow> real list \<Rightarrow> real list list \<Rightarrow> nat" where
  "count_within r x xs = length (filter (\<lambda>x_j. np_le (Fin (chebyshev x x_j)) r) xs)"

text \<open>
  With \<open>m = 0\<close> the rows are empty and \<open>max(axis=1)\<close> raises as soon as the first loop
  runs once. The counts are NumPy integers, their quotient is a NumPy float.
\<close>

definition sample_entropy :: "real list \<Rightarrow> nat \<Rightarrow> real \<Rightarrow> error + npfloat" where
  "sample_entropy rri m r =
     (let r = np_mul (Fin r) (np_std rri);
          n = length rri;
          xmi = templates rri m (n - m);
          xmj = templates rri m (n + 1 - m)
      in if m = 0 \<and> xmi \<noteq> [] then Inl (ValueError Zero_size)
         else
           let b = (\<Sum>xmii\<leftarrow>xmi. int (count_within r xmii xmj) - 1);
               m = m + 1;
               xm = templates rri m (n + 1 - m);
               a = (\<Sum>xmi\<leftarrow>xm. int (count_within r xmi xm) - 1)
           in Inr (np_neg (np_log (np_div (real_of_int a) (real_of_int b)))))"

text \<open>The list \<open>C\<close> of \<open>_phi(m)\<close>, and \<open>_phi(m)\<close> itself.\<close>

definition phi_C :: "real list \<Rightarrow> npfloat \<Rightarrow> nat \<Rightarrow> real list" where
  "phi_C rri r m =
     (let n = length rri;
          x = templates rri m (n + 1 - m)
      in map (\<lambda>x_i. real (count_within r x_i x) / (real n - real m + 1)) x)"

definition phi :: "real list \<Rightarrow> npfloat \<Rightarrow> nat \<Rightarrow> error + npfloat" where
  "phi rri r m =
     (let n = length rri
      in if m = 0 then Inl (ValueError Zero_size)
         else if real n - real m + 1 = 0 then Inl ZeroDivisionError
         else Inr (np_mul (Fin (1 / (real n - real m + 1)))
                     (np_sum (map (\<lambda>c. np_log (Fin c)) (phi_C rri r m)))))"

definition approximate_entropy :: "real list \<Rightarrow> nat \<Rightarrow> real \<Rightarrow> error + npfloat" where
  "approximate_entropy rri m r =
     (let r = np_mul (Fin r) (np_std rri)
      in case phi rri r m of
           Inl e \<Rightarrow> Inl e
         | Inr p \<Rightarrow> (case phi rri r (m + 1) of
                       Inl e \<Rightarrow> Inl e
                     | Inr q \<Rightarrow> Inr (np_sub p q)))"

text \<open>
  The count the specification describes: the ordered pairs \<open>(i, j)\<close> of different
  positions, \<open>i\<close> among the first \<open>k\<close> and \<open>j\<close> among the first \<open>l\<close> subsequences of
  length \<open>m\<close>, whose Chebyshev distance is at most \<open>r\<close>.
\<close>

definition matching_pairs :: "real list \<Rightarrow> nat \<Rightarrow> npfloat \<Rightarrow> nat \<Rightarrow> nat \<Rightarrow> nat" where
  "matching_pairs rri m r k l =
     length (filter
       (\<lambda>(i, j). i \<noteq> j \<and> np_le (Fin (chebyshev (take m (drop i rri)) (take m (drop j rri)))) r)
       (List.product [0..<k] [0..<l]))"

subsection \<open>Results, exceptions in sequence, external routines\<close>

text \<open>
  Modelled from the spec: \<open>utils.ReturnTuple\<close>, the named-result container of the
  package, is not among the sources. The specification describes it as an ordered mapping
  from feature name to value that is only appended to and joined, which is an association
  list; looking up a name that is absent raises \<open>KeyError\<close>. The names the module appends
  are pairwise different.
\<close>

datatype feature = Scalar npfloat | Array "npfloat list"

type_synonym features = "(string \<times> feature) list"

definition get_scalar :: "features \<Rightarrow> string \<Rightarrow> error + npfloat" where
  "get_scalar out k = (case map_of out k of Some (Scalar v) \<Rightarrow> Inr v | _ \<Rightarrow> Inl KeyError)"

text \<open>Statements in sequence: the first exception ends the computation.\<close>

definition and_then :: "error + 'a \<Rightarrow> ('a \<Rightarrow> error + 'b) \<Rightarrow> error + 'b" where
  "and_then m f = (case m of Inl e \<Rightarrow> Inl e | Inr x \<Rightarrow> f x)"

text \<open>
  The routines the module calls and that are not part of it are parameters:
  \<open>tools.detrend_smoothness_priors\<close> (Modelled from the spec: given a numeric sequence
  and a smoothing factor it returns the detrended sequence), SciPy's \<open>interp1d\<close> for the
  kinds \<open>'cubic'\<close> and \<open>'linear'\<close> (constructing the interpolant may raise, and so may
  applying it) and SciPy's \<open>welch\<close> (arguments: the signal, \<open>fs\<close> and \<open>nperseg\<close>; result:
  frequencies and powers). An external routine raises \<open>ValueError\<close> or some other
  exception, never with a message of this module. The plotting calls behind \<open>show\<close>
  return nothing the features depend on and are left out.
\<close>

datatype lib_error = Lib_ValueError | Lib_Exception

type_synonym 'a interpolant = "real list \<Rightarrow> lib_error + 'a list"

type_synonym 'a interp1d = "real list \<Rightarrow> real list \<Rightarrow> lib_error + 'a interpolant"

record externals =
  detrend_smoothness_priors :: "real list \<Rightarrow> real \<Rightarrow> real list"
  interp1d_cubic :: "real interp1d"
  interp1d_linear :: "npfloat interp1d"
  welch :: "real list \<Rightarrow> real \<Rightarrow> nat \<Rightarrow> lib_error + (real list \<times> real list)"

text \<open>An exception of an external routine, as the module sees it.\<close>

definition lib :: "lib_error + 'a \<Rightarrow> error + 'a" where
  "lib m =
     (case m of
        Inl Lib_ValueError \<Rightarrow> Inl (ValueError Library)
      | Inl Lib_Exception \<Rightarrow> Inl LibraryError
      | Inr x \<Rightarrow> Inr x)"

subsection \<open>Windowed detrender\<close>

text \<open>
  \<open>np.array_split(xs, k)\<close>: \<open>k\<close> consecutive parts, the first \<open>len(xs) mod k\<close> of them one
  element longer than the others.
\<close>

fun split_sizes :: "'a list \<Rightarrow> nat list \<Rightarrow> 'a list list" where
  "split_sizes xs [] = []"
| "split_sizes xs (s # ss) = take s xs # split_sizes (drop s xs) ss"

definition array_split :: "'a list \<Rightarrow> nat \<Rightarrow> 'a list list" where
  "array_split xs k =
     split_sizes xs (replicate (length xs mod k) (length xs div k + 1)
                     @ replicate (k - length xs mod k) (length xs div k))"

definition detrend_window :: "externals \<Rightarrow> real list \<Rightarrow> nat \<Rightarrow> real \<Rightarrow> error + real list" where
  "detrend_window ext rri win_len smoothing_factor =
     (if length rri > win_len then
        if win_len = 0 then Inl ZeroDivisionError
        else
          let splits = length rri div win_len;
              rri_splits = array_split rri splits
          in Inr (concat (map (\<lambda>split. detrend_smoothness_priors ext split smoothing_factor)
                            rri_splits))
      else Inr (detrend_smoothness_priors ext rri smoothing_factor))"

subsection \<open>Band aggregator\<close>

text \<open>
  A band table is a dictionary from the band name to its two limits; \<open>fbands[fband][0]\<close>
  and \<open>fbands[fband][-1]\<close> are the components of the pair.
\<close>

type_synonym band = "string \<times> real \<times> real"

definition FBANDS :: "band list" where
  "FBANDS = [(''ulf'', 0, 3 / 1000), (''vlf'', 3 / 1000, 4 / 100), (''lf'', 4 / 100, 15 / 100),
             (''hf'', 15 / 100, 4 / 10), (''vhf'', 4 / 10, 5 / 10)]"

text \<open>\<open>np.argmax\<close>: the first position of the maximum.\<close>

definition np_argmax :: "('a::linorder) list \<Rightarrow> nat" where
  "np_argmax xs = length (takeWhile (\<lambda>x. x \<noteq> Max (set xs)) xs)"

text \<open>\<open>np.argwhere((frequencies >= low) & (frequencies <= high)).reshape(-1)\<close>\<close>

definition band_indices :: "real list \<Rightarrow> real \<Rightarrow> real \<Rightarrow> nat list" where
  "band_indices frequencies lo hi =
     filter (\<lambda>i. lo \<le> frequencies ! i \<and> frequencies ! i \<le> hi) [0..<length frequencies]"

text \<open>
  One turn of the loop over the bands: nothing for an empty selection, otherwise the name
  with the band's power, peak frequency and relative power. \<open>powers[band]\<close> raises
  \<open>IndexError\<close> when the power axis is shorter than a selected index.
\<close>

type_synonym band_row = "string \<times> real \<times> real \<times> npfloat"

definition fband_row :: "real list \<Rightarrow> real list \<Rightarrow> real \<Rightarrow> real \<Rightarrow> band \<Rightarrow> error + band_row list" where
  "fband_row frequencies powers df total_pwr fb =
     (case fb of (fband, lo, hi) \<Rightarrow>
        let band = band_indices frequencies lo hi
        in if band = [] then Inr []
           else if list_ex (\<lambda>i. length powers \<le> i) band then Inl IndexError
           else
             let pwr = sum_list (map ((!) powers) band) * df;
                 peak = map ((!) frequencies) band ! np_argmax (map ((!) powers) band);
                 rpwr = np_div pwr total_pwr
             in Inr [(fband, pwr, peak, rpwr)])"

definition compute_fbands_rows :: "real list \<Rightarrow> real list \<Rightarrow> band list option \<Rightarrow> error + band_row list" where
  "compute_fbands_rows frequencies powers fbands =
     (if length frequencies < 2 then Inl IndexError
      else
        let df = frequencies ! 1 - frequencies ! 0;
            total_pwr = sum_list powers * df;
            fbands = (case fbands of None \<Rightarrow> FBANDS | Some t \<Rightarrow> t)
        in fold (\<lambda>fb out. and_then out (\<lambda>rows.
                   and_then (fband_row frequencies powers df total_pwr fb) (\<lambda>row.
                     Inr (rows @ row))))
             fbands (Inr []))"

definition row_features :: "band_row \<Rightarrow> features" where
  "row_features row =
     (case row of (fband, pwr, peak, rpwr) \<Rightarrow>
        [(fband @ ''_pwr'', Scalar (Fin pwr)), (fband @ ''_peak'', Scalar (Fin peak)),
         (fband @ ''_rpwr'', Scalar rpwr)])"

definition compute_fbands :: "real list \<Rightarrow> real list \<Rightarrow> band list option \<Rightarrow> error + features" where
  "compute_fbands frequencies powers fbands =
     and_then (compute_fbands_rows frequencies powers fbands) (\<lambda>rows.
       Inr (concat (map row_features rows)))"


text \<open>
  The indices a band selects, and band tables no two entries of which select a common
  index.
\<close>

definition selection :: "real list \<Rightarrow> band \<Rightarrow> nat list" where
  "selection frequencies fb = (case fb of (fband, lo, hi) \<Rightarrow> band_indices frequencies lo hi)"


text \<open>
  What one turn of the loop appends when no selected index lies beyond the power axis,
  and the sum of the powers a band selects.
\<close>

definition band_row :: "real list \<Rightarrow> real list \<Rightarrow> real \<Rightarrow> real \<Rightarrow> band \<Rightarrow> band_row list" where
  "band_row f p df tot fb =
     (if selection f fb = [] then []
      else [(fst fb, sum_list (map ((!) p) (selection f fb)) * df,
             map ((!) f) (selection f fb) ! np_argmax (map ((!) p) (selection f fb)),
             np_div (sum_list (map ((!) p) (selection f fb)) * df) tot)])"


subsection \<open>Geometrical features\<close>

text \<open>
  \<open>np.arange(start, stop, step)\<close> for a step other than zero, and \<open>np.histogram(a, bins)\<close> for
  increasing bin edges: every bin is closed on the left and open on the right, but the
  last one, which is closed on both sides. One edge alone gives no bin.
\<close>

definition np_arange :: "real \<Rightarrow> real \<Rightarrow> real \<Rightarrow> real list" where
  "np_arange start stop step =
     map (\<lambda>i. start + real i * step) [0..<nat \<lceil>(stop - start) / step\<rceil>]"

definition np_histogram :: "real list \<Rightarrow> real list \<Rightarrow> nat list" where
  "np_histogram a bins =
     map (\<lambda>k. length (filter (\<lambda>x. bins ! k \<le> x
                 \<and> (if k + 2 = length bins then x \<le> bins ! (k + 1) else x < bins ! (k + 1))) a))
       [0..<length bins - 1]"

text \<open>
  The sum of squared differences between the histogram and the triangle through
  \<open>(n', 0)\<close>, the peak and \<open>(m', 0)\<close>, and the double loop that keeps the first pair with
  the least error. The state of the loop is \<open>(error_min, n, m)\<close>. The interpolant
  returns one value for each point it is applied to.
\<close>

definition triangle_error ::
  "npfloat interp1d \<Rightarrow> real \<Rightarrow> real \<Rightarrow> real \<Rightarrow> nat \<Rightarrow> real list \<Rightarrow> nat list \<Rightarrow> real \<Rightarrow> real \<Rightarrow> real
   \<Rightarrow> error + npfloat" where
  "triangle_error interp1d tmin tmax binsize max_count bins hist peak_edge n' m' =
     and_then (lib (interp1d [tmin, n', peak_edge, m', tmax + binsize]
                      [0, 0, real max_count, 0, 0])) (\<lambda>q.
     and_then (lib (q bins)) (\<lambda>q.
       Inr (np_sum (map2 (\<lambda>h v. np_mul (np_sub (Fin (real h)) v) (np_sub (Fin (real h)) v))
                      hist (butlast q)))))"

type_synonym tinn_state = "npfloat \<times> real \<times> real"

definition tinn_update ::
  "(real \<Rightarrow> real \<Rightarrow> error + npfloat) \<Rightarrow> real \<Rightarrow> real \<Rightarrow> error + tinn_state \<Rightarrow> error + tinn_state" where
  "tinn_update err n' m' st =
     and_then st (\<lambda>(error_min, n, m).
       and_then (err n' m') (\<lambda>error.
         if np_lt error error_min then Inr (error, n', m')
         else Inr (error_min, n, m)))"

definition tinn_search ::
  "(real \<Rightarrow> real \<Rightarrow> error + npfloat) \<Rightarrow> real list \<Rightarrow> real list \<Rightarrow> error + tinn_state" where
  "tinn_search err n_values m_values =
     fold (\<lambda>n'. fold (tinn_update err n') m_values) n_values (Inr (PInf, 0, 0))"

definition hist_bins :: "real list \<Rightarrow> real \<Rightarrow> real list" where
  "hist_bins rri binsize = np_arange (Min (set rri)) (Max (set rri) + binsize) binsize"

text \<open>
  \<open>compute_geometrical\<close> returns \<open>(hti, tinn)\<close>. Its first argument is the routine
  behind \<open>interp1d(x=t, y=y, kind='linear')\<close>. The parameter \<open>binsize\<close> is in seconds
  and positive (1/128 by default). \<open>rri.min()\<close> raises on an empty array and \<open>np.max\<close>
  raises on a histogram without bins.
\<close>

definition compute_geometrical ::
  "npfloat interp1d \<Rightarrow> real list \<Rightarrow> real \<Rightarrow> error + (npfloat \<times> real)" where
  "compute_geometrical interp1d rri binsize =
     (let binsize = binsize * 1000
      in if rri = [] then Inl (ValueError Zero_size)
         else
           let tmin = Min (set rri);
               tmax = Max (set rri);
               bins = hist_bins rri binsize;
               hist = np_histogram rri bins
           in if hist = [] then Inl (ValueError Zero_size)
              else
                let max_count = Max (set hist);
                    peak_hist = np_argmax hist;
                    hti = np_div (real (length rri)) (real max_count);
                    n_values = take peak_hist bins;
                    m_values = drop (peak_hist + 1) bins
                in and_then
                     (tinn_search
                        (triangle_error interp1d tmin tmax binsize max_count bins hist (bins ! peak_hist))
                        n_values m_values)
                     (\<lambda>(error_min, n, m). Inr (hti, m - n)))"

text \<open>
  SciPy's linear \<open>interp1d\<close> for float abscissae and integer ordinates, as used by
  \<open>compute_geometrical\<close>: the abscissae are sorted (they are already), the values are
  those of \<open>numpy.interp\<close>, and a point outside the abscissae raises \<open>ValueError\<close>.
\<close>

fun np_interp :: "(real \<times> real) list \<Rightarrow> real \<Rightarrow> real" where
  "np_interp [] x = 0"
| "np_interp [(x0, y0)] x = y0"
| "np_interp ((x0, y0) # (x1, y1) # ps) x =
     (if x < x1 then (if x = x0 then y0 else (y1 - y0) / (x1 - x0) * (x - x0) + y0)
      else np_interp ((x1, y1) # ps) x)"

definition scipy_interp1d_linear :: "npfloat interp1d" where
  "scipy_interp1d_linear xs ys =
     (if length xs \<noteq> length ys \<or> xs = [] then Inl Lib_ValueError
      else Inr (\<lambda>x_new.
        if list_ex (\<lambda>x. x < hd xs \<or> last xs < x) x_new then Inl Lib_ValueError
        else Inr (map (\<lambda>x. Fin (np_interp (zip xs ys) x)) x_new)))"

subsection \<open>Time-domain features\<close>

text \<open>\<open>ndarray.min()\<close> and \<open>ndarray.max()\<close>: they raise on an empty array and propagate NaN.\<close>

definition np_minimum :: "npfloat \<Rightarrow> npfloat \<Rightarrow> npfloat" where
  "np_minimum a b = (if a = NaN \<or> b = NaN then NaN else if np_lt b a then b else a)"

definition np_maximum :: "npfloat \<Rightarrow> npfloat \<Rightarrow> npfloat" where
  "np_maximum a b = (if a = NaN \<or> b = NaN then NaN else if np_lt a b then b else a)"

definition np_amin :: "npfloat list \<Rightarrow> error + npfloat" where
  "np_amin xs = (case xs of [] \<Rightarrow> Inl (ValueError Zero_size) | x # ys \<Rightarrow> Inr (fold np_minimum ys x))"

definition np_amax :: "npfloat list \<Rightarrow> error + npfloat" where
  "np_amax xs = (case xs of [] \<Rightarrow> Inl (ValueError Zero_size) | x # ys \<Rightarrow> Inr (fold np_maximum ys x))"

text \<open>\<open>if duration is None: duration = np.sum(rri) / 1000.\<close>\<close>

definition default_duration :: "real list \<Rightarrow> npfloat option \<Rightarrow> npfloat" where
  "default_duration rri duration =
     (case duration of None \<Rightarrow> Fin (sum_list rri / 1000) | Some d \<Rightarrow> d)"

text \<open>The block under \<open>duration >= 10\<close>: heart rate and RRI features.\<close>

definition heart_rate_features :: "real list \<Rightarrow> real list \<Rightarrow> error + features" where
  "heart_rate_features rri rri_diff =
     (let hr = map (\<lambda>x. np_divide (Fin 60) (np_div x 1000)) rri
      in and_then (np_amin hr) (\<lambda>hr_min.
         and_then (np_amax hr) (\<lambda>hr_max.
           let hr_minmax = np_sub hr_max hr_min;
               hr_avg = np_divide (np_sum hr) (Fin (real (length hr)));
               rr_mean = np_mean rri;
               rmssd = np_pow_half (np_mean (map (\<lambda>d. d\<^sup>2) rri_diff))
           in Inr [(''hr'', Array hr), (''hr_min'', Scalar hr_min), (''hr_max'', Scalar hr_max),
                   (''hr_minmax'', Scalar hr_minmax), (''hr_avg'', Scalar hr_avg),
                   (''rr_mean'', Scalar rr_mean), (''rmssd'', Scalar rmssd)])))"

text \<open>
  The block under \<open>duration >= 20\<close>. \<open>nn50\<close> and \<open>nntot\<close> are Python integers, so their
  quotient raises \<open>ZeroDivisionError\<close> when there is no difference at all.
\<close>

definition nn50_features :: "real list \<Rightarrow> error + features" where
  "nn50_features rri_diff =
     (let th50 = 50;
          nntot = length rri_diff;
          nn50 = length (filter (\<lambda>d. \<bar>d\<bar> > th50) rri_diff)
      in if nntot = 0 then Inl ZeroDivisionError
         else Inr [(''nn50'', Scalar (Fin (real nn50))),
                   (''pnn50'', Scalar (Fin (100 * (real nn50 / real nntot))))])"

text \<open>
  \<open>hrv_timedomain\<close>. The arguments \<open>rri\<close> and \<open>duration\<close> may be \<open>None\<close>; the last argument
  is the keyword \<open>rri_detrended\<close>, \<open>None\<close> when it is not passed.
\<close>

definition hrv_timedomain ::
  "externals \<Rightarrow> real list option \<Rightarrow> npfloat option \<Rightarrow> bool \<Rightarrow> real list option \<Rightarrow> error + features" where
  "hrv_timedomain ext rri duration detrend_rri rri_detrended =
     (case rri of
        None \<Rightarrow> Inl (ValueError Missing_input)
      | Some rri \<Rightarrow>
          and_then (if detrend_rri
                    then (case rri_detrended of
                            Some d \<Rightarrow> Inr d
                          | None \<Rightarrow> detrend_window ext rri 2000 500)
                    else Inr rri) (\<lambda>rri_det.
            let duration = default_duration rri duration
            in if np_lt duration (Fin 10) then Inl (ValueError Too_short)
               else
                 let rri_diff = np_diff rri_det
                 in and_then (if np_le (Fin 10) duration then heart_rate_features rri rri_diff
                              else Inr []) (\<lambda>out10.
                    and_then (if np_le (Fin 20) duration then nn50_features rri_diff
                              else Inr []) (\<lambda>out20.
                    and_then (if np_le (Fin 60) duration
                              then Inr [(''sdnn'', Scalar (np_std rri_det))]
                              else Inr []) (\<lambda>out60.
                    and_then (if np_le (Fin 90) duration
                              then and_then (compute_geometrical (interp1d_linear ext) rri (1 / 128)) (\<lambda>(hti, tinn).
                                     Inr [(''hti'', Scalar hti), (''tinn'', Scalar (Fin tinn))])
                              else Inr []) (\<lambda>out90.
                      Inr (out10 @ out20 @ out60 @ out90)))))))"

text \<open>
  The names the blocks of \<open>hrv_timedomain\<close> append, by the duration that is tested.
\<close>

definition hr_keys :: "string list" where
  "hr_keys = [''hr'', ''hr_min'', ''hr_max'', ''hr_minmax'', ''hr_avg'', ''rr_mean'', ''rmssd'']"

definition tier_keys :: "npfloat \<Rightarrow> string list" where
  "tier_keys duration =
     (if np_le (Fin 10) duration then hr_keys else [])
     @ (if np_le (Fin 20) duration then [''nn50'', ''pnn50''] else [])
     @ (if np_le (Fin 60) duration then [''sdnn''] else [])
     @ (if np_le (Fin 90) duration then [''hti'', ''tinn''] else [])"

subsection \<open>Frequency-domain features\<close>

text \<open>
  \<open>hrv_frequencydomain\<close>. The keyword \<open>frs\<close> is the last argument (4 by default);
  \<open>1000. / frs\<close> raises \<open>ZeroDivisionError\<close> for \<open>frs = 0\<close>. \<open>t[0]\<close> raises \<open>IndexError\<close>
  on an empty sequence. The band table \<open>fbands\<close> is passed on to the plot only:
  \<open>compute_fbands\<close> is called without it.
\<close>

definition np_cumsum :: "real list \<Rightarrow> real list" where
  "np_cumsum xs = map (\<lambda>k. sum_list (take (k + 1) xs)) [0..<length xs]"

definition hrv_frequencydomain ::
  "externals \<Rightarrow> real list option \<Rightarrow> npfloat option \<Rightarrow> string \<Rightarrow> band list option \<Rightarrow> bool \<Rightarrow> real
   \<Rightarrow> error + features" where
  "hrv_frequencydomain ext rri duration freq_method fbands detrend_rri frs =
     (case rri of
        None \<Rightarrow> Inl TypeError
      | Some rri \<Rightarrow>
          if freq_method \<notin> set [''FFT''] then Inl (ValueError Unknown_choice)
          else
            let duration = default_duration rri duration
            in if np_lt duration (Fin 20) then Inl (ValueError Too_short)
               else if rri = [] then Inl IndexError
               else
                 let t = map (\<lambda>x. x - hd (np_cumsum rri)) (np_cumsum rri)
                 in and_then (lib (interp1d_cubic ext t rri)) (\<lambda>f_inter.
                    if frs = 0 then Inl ZeroDivisionError
                    else
                      and_then (lib (f_inter (np_arange (hd t) (last t) (1000 / frs)))) (\<lambda>rri_inter.
                      and_then (if detrend_rri then detrend_window ext rri_inter 2000 500
                                else Inr rri_inter) (\<lambda>rri_inter.
                        if np_le (Fin 20) duration then
                          and_then (lib (welch ext rri_inter frs 300)) (\<lambda>(frequencies, powers).
                          and_then (compute_fbands frequencies powers None) (\<lambda>fb_out.
                          and_then (get_scalar fb_out ''lf_pwr'') (\<lambda>lf_pwr.
                          and_then (get_scalar fb_out ''hf_pwr'') (\<lambda>hf_pwr.
                            let lf_hf = np_divide lf_pwr hf_pwr;
                                lf_nu = np_divide lf_pwr (np_add lf_pwr hf_pwr);
                                hf_nu = np_sub (Fin 1) lf_nu
                            in Inr (fb_out @ [(''lf_hf'', Scalar lf_hf), (''lf_nu'', Scalar lf_nu),
                                              (''hf_nu'', Scalar hf_nu)])))))
                        else Inr []))))"

subsection \<open>Non-linear features\<close>

definition compute_poincare :: "real list \<Rightarrow> features" where
  "compute_poincare rri =
     (let x = butlast rri;
          y = tl rri;
          x1 = map2 (\<lambda>a b. (a - b) / sqrt 2) x y;
          x2 = map2 (\<lambda>a b. (a + b) / sqrt 2) x y;
          sd1 = np_std x1;
          sd2 = np_std x2;
          s = np_mul (np_mul (Fin pi) sd1) sd2;
          sd12 = np_divide sd1 sd2;
          sd21 = np_divide sd2 sd1
      in [(''s'', Scalar s), (''sd1'', Scalar sd1), (''sd2'', Scalar sd2),
          (''sd12'', Scalar sd12), (''sd21'', Scalar sd21)])"

definition hrv_nonlinear ::
  "externals \<Rightarrow> real list option \<Rightarrow> npfloat option \<Rightarrow> bool \<Rightarrow> error + features" where
  "hrv_nonlinear ext rri duration detrend_rri =
     (case rri of
        None \<Rightarrow> Inl TypeError
      | Some rri \<Rightarrow>
          let duration = default_duration rri duration
          in if np_lt duration (Fin 90) then Inl (ValueError Too_short)
             else
               and_then (if detrend_rri then detrend_window ext rri 2000 500 else Inr rri) (\<lambda>rri.
               and_then (if np_le (Fin 90) duration
                         then and_then (sample_entropy rri 2 (2 / 10)) (\<lambda>sampen.
                                Inr (compute_poincare rri @ [(''sampen'', Scalar sampen)]))
                         else Inr []) (\<lambda>out90.
               and_then (if length rri \<ge> 800
                         then and_then (approximate_entropy rri 2 (2 / 10)) (\<lambda>appen.
                                Inr [(''appen'', Scalar appen)])
                         else Inr []) (\<lambda>out800.
                 Inr (out90 @ out800)))))"


subsection \<open>Pipeline orchestrator\<close>

text \<open>
  What is known of SciPy, filled into any collection of external routines: the linear
  interpolation described above, and a cubic interpolation that rejects fewer than four
  points with \<open>ValueError\<close>.
\<close>

definition with_scipy :: "externals \<Rightarrow> externals" where
  "with_scipy ext =
     ext\<lparr>interp1d_linear := scipy_interp1d_linear,
         interp1d_cubic := (\<lambda>t y. if length t < 4 then Inl Lib_ValueError
                                  else interp1d_cubic ext t y)\<rparr>"

text \<open>
  \<open>try: ... except ValueError: print(...)\<close> around one feature family: a \<open>ValueError\<close>
  adds the printed notice and leaves the features as they were, any other exception
  propagates. The state is the features so far and the notices printed.
\<close>

definition try_family ::
  "features \<times> string list \<Rightarrow> error + features \<Rightarrow> string \<Rightarrow> error + features \<times> string list" where
  "try_family st family notice =
     (case family of
        Inr fs \<Rightarrow> Inr (fst st @ fs, snd st)
      | Inl (ValueError _) \<Rightarrow> Inr (fst st, snd st @ [notice])
      | Inl e \<Rightarrow> Inl e)"

text \<open>
  \<open>hrv\<close>. Its result is the feature set and the notices printed. The warning of
  \<open>compute_rri\<close> goes to Python's warning channel and is not part of the result.
  \<open>extract_families\<close> is the part of \<open>hrv\<close> from \<open>out = out.append(rri, 'rri')\<close> on, with
  the duration as it stands after \<open>if parameters == 'all': duration = np.inf\<close>.
\<close>

definition extract_families ::
  "externals \<Rightarrow> string \<Rightarrow> real list \<Rightarrow> npfloat \<Rightarrow> bool \<Rightarrow> real list option
   \<Rightarrow> error + features \<times> string list" where
  "extract_families ext parameters rri duration detrend_rri rri_det =
     (let out = ([(''rri'', Array (map Fin rri))], [])
      in and_then (if parameters \<in> set [''time'', ''auto'', ''all'']
                   then try_family out
                          (hrv_timedomain ext (Some rri) (Some duration) detrend_rri rri_det)
                          ''Time-domain features not computed. The signal is not long enough.''
                   else Inr out) (\<lambda>out.
         and_then (if parameters \<in> set [''frequency'', ''auto'', ''all'']
                   then try_family out
                          (hrv_frequencydomain ext (Some rri) (Some duration) ''FFT'' None
                             detrend_rri 4)
                          ''Frequency-domain features not computed. The signal is not long enough.''
                   else Inr out) (\<lambda>out.
         and_then (if parameters \<in> set [''non-linear'', ''auto'', ''all'']
                   then try_family out
                          (hrv_nonlinear ext (Some rri) (Some duration) detrend_rri)
                          ''Non-linear features not computed. The signal is not long enough.''
                   else Inr out) (\<lambda>out.
           Inr out))))"

definition hrv ::
  "externals \<Rightarrow> real list option \<Rightarrow> real \<Rightarrow> real list option \<Rightarrow> string \<Rightarrow> bool \<Rightarrow> bool
   \<Rightarrow> error + features \<times> string list" where
  "hrv ext rpeaks sampling_rate rri parameters filter_rri detrend_rri =
     (if rpeaks = None \<and> rri = None then Inl TypeError
      else if parameters \<notin> set [''auto'', ''time'', ''frequency'', ''non-linear'', ''all'']
      then Inl (ValueError Unknown_choice)
      else
        and_then (case rri of
                    None \<Rightarrow> and_then (compute_rri (the rpeaks) sampling_rate) (\<lambda>(rri, warned). Inr rri)
                  | Some rri \<Rightarrow> Inr rri) (\<lambda>rri.
          let duration = Fin (sum_list rri / 1000);
              rri = (if filter_rri then rri_filter rri 1200 else rri)
          in and_then (if detrend_rri
                       then and_then (detrend_window ext rri 2000 500) (\<lambda>d. Inr (Some d))
                       else Inr None) (\<lambda>rri_det.
             let duration = (if parameters = ''all'' then PInf else duration)
             in extract_families ext parameters rri duration detrend_rri rri_det)))"

section \<open>Properties\<close>

subsection \<open>RRI filter\<close>

text \<open>
  Claim C6. For every RRI sequence and every threshold, \<open>rri_filter\<close> returns an
  order-preserving subsequence of its input, every retained value is strictly below the
  threshold, and filtering the result again with the same threshold changes nothing.
\<close>

theorem rri_filter_subseq_below_idempotent:
  "subseq (rri_filter rri threshold) rri
   \<and> list_all (\<lambda>x. x < threshold) (rri_filter rri threshold)
   \<and> rri_filter (rri_filter rri threshold) threshold = rri_filter rri threshold"
  by (simp add: rri_filter_def list_all_iff)

subsection \<open>Interval builder\<close>

text \<open>
  With at least two beat indices the interval builder does not reject its input: it
  returns one interval for each pair of successive beats.
\<close>

lemma np_diff_length: "length (np_diff xs) = length xs - 1"
  by (induction xs rule: np_diff.induct) auto

lemma compute_rri_returns:
  assumes "2 \<le> length rpeaks"
  shows "\<exists>w. compute_rri rpeaks sampling_rate
           = Inr (map (\<lambda>d. (1000 * d) / sampling_rate) (np_diff rpeaks), w)"
proof -
  have "np_diff rpeaks \<noteq> []"
    using assms np_diff_length [of rpeaks] by (cases "np_diff rpeaks") auto
  then show ?thesis
    by (simp add: compute_rri_def Let_def)
qed

text \<open>The warning depends on the least interval alone.\<close>

lemma compute_rri_warning:
  "compute_rri rpeaks sampling_rate = Inr (rri, warned)
   \<Longrightarrow> warned = (Min (set rri) < 400 \<or> 1400 < Min (set rri))"
  by (auto simp: compute_rri_def Let_def split: if_splits)

text \<open>
  Claim C8, at an input where the code does not do what the claim says. Beats at the
  samples 0, 800 and 2800 at 1000 Hz give the intervals 800 ms and 2000 ms. The second
  lies outside [400, 1400] ms, yet no warning is emitted: the test reads the minimum
  interval on both sides of \<open>or\<close>.
\<close>

theorem compute_rri_no_warning_above_range:
  "compute_rri [0, 800, 2800] 1000 = Inr ([800, 2000], False)"
  by (simp add: compute_rri_def)

subsection \<open>Sample entropy\<close>

lemma chebyshev_self: "x \<noteq> [] \<Longrightarrow> chebyshev x x = 0"
proof -
  assume "x \<noteq> []"
  have "set (map2 (\<lambda>a b. \<bar>a - b\<bar>) x x) = (\<lambda>a. 0) ` set x"
    by (induction x) auto
  also have "\<dots> = {0}"
    using \<open>x \<noteq> []\<close> by (cases x) auto
  finally show ?thesis
    by (simp add: chebyshev_def)
qed

lemma mean_squares_nonneg: "0 \<le> mean (map (\<lambda>x. (f x)\<^sup>2) xs)"
  unfolding mean_def by (intro divide_nonneg_nonneg sum_list_nonneg) auto

lemma tolerance_nonneg:
  assumes "rri \<noteq> []" "0 \<le> r"
  shows "np_le (Fin 0) (np_mul (Fin r) (np_std rri))"
  using assms mean_squares_nonneg [of "\<lambda>x. \<bar>x - mean rri\<bar>" rri] by (simp add: np_std_def)

lemma length_filter_product:
  "length (filter (\<lambda>(i, j). Q i j) (List.product xs ys))
   = (\<Sum>i\<leftarrow>xs. length (filter (Q i) ys))"
  by (induction xs) (simp_all add: filter_map o_def)

lemma int_sum_list: "(\<Sum>i\<leftarrow>xs. int (f i)) = int (\<Sum>i\<leftarrow>xs. f i)"
  by (induction xs) auto

lemma length_filter_except:
  assumes "i < l" "P i"
  shows "length (filter (\<lambda>j. i \<noteq> j \<and> P j) [0..<l]) = length (filter P [0..<l]) - 1"
proof -
  have "length (filter P [0..<l])
        = length (filter (\<lambda>j. i \<noteq> j \<and> P j) [0..<l]) + length (filter (\<lambda>j. \<not> i \<noteq> j \<and> P j) [0..<l])"
    using sum_length_filter_compl [of "\<lambda>j. i \<noteq> j" "filter P [0..<l]"]
    by (simp add: conj_commute)
  moreover have "filter (\<lambda>j. \<not> i \<noteq> j \<and> P j) [0..<l] = filter (\<lambda>j. j = i) [0..<l]"
    using assms by (intro filter_cong) auto
  moreover have "length (filter (\<lambda>j. j = i) [0..<l]) = 1"
    using assms(1) by (induction l) auto
  ultimately show ?thesis by simp
qed

lemma count_within_templates:
  "count_within r x (templates rri m l)
   = length (filter (\<lambda>j. np_le (Fin (chebyshev x (take m (drop j rri)))) r) [0..<l])"
  by (simp add: count_within_def templates_def filter_map o_def)

lemma sum_matches_pairs:
  assumes "k \<le> l" "\<forall>i<k. np_le (Fin (chebyshev (take m (drop i rri)) (take m (drop i rri)))) r"
  shows "(\<Sum>x\<leftarrow>templates rri m k. int (count_within r x (templates rri m l)) - 1)
         = int (matching_pairs rri m r k l)"
proof -
  let ?P = "\<lambda>i j. np_le (Fin (chebyshev (take m (drop i rri)) (take m (drop j rri)))) r"
  have each: "int (length (filter (?P i) [0..<l])) - 1
              = int (length (filter (\<lambda>j. i \<noteq> j \<and> ?P i j) [0..<l]))" if "i < k" for i
  proof -
    have "i < l" "?P i i" using that assms by auto
    then have "length (filter (\<lambda>j. i \<noteq> j \<and> ?P i j) [0..<l]) = length (filter (?P i) [0..<l]) - 1"
      by (rule length_filter_except)
    moreover have "i \<in> set (filter (?P i) [0..<l])"
      using \<open>i < l\<close> \<open>?P i i\<close> by simp
    then have "0 < length (filter (?P i) [0..<l])"
      by (rule length_pos_if_in_set)
    ultimately show ?thesis by linarith
  qed
  have "(\<Sum>x\<leftarrow>templates rri m k. int (count_within r x (templates rri m l)) - 1)
        = (\<Sum>i\<leftarrow>[0..<k]. int (length (filter (?P i) [0..<l])) - 1)"
    by (simp add: templates_def o_def count_within_templates [unfolded templates_def])
  also have "\<dots> = (\<Sum>i\<leftarrow>[0..<k]. int (length (filter (\<lambda>j. i \<noteq> j \<and> ?P i j) [0..<l])))"
    by (rule arg_cong [where f = sum_list], rule map_cong) (simp_all add: each)
  also have "\<dots> = int (matching_pairs rri m r k l)"
    by (simp add: matching_pairs_def length_filter_product [where Q = "\<lambda>i j. i \<noteq> j \<and> ?P i j"] int_sum_list)
  finally show ?thesis .
qed

text \<open>
  Claim C2 (as amended). For an RRI sequence of length \<open>n > m + 1\<close>, embedding dimension
  \<open>m \<ge> 1\<close> and tolerance \<open>r\<close> times the standard deviation (\<open>r \<ge> 0\<close>, 0.2 by default),
  \<open>sample_entropy\<close> returns \<open>-ln (A / B)\<close>, where \<open>B\<close> counts the ordered pairs \<open>(i, j)\<close>,
  \<open>i \<noteq> j\<close>, with \<open>i\<close> among the first \<open>n - m\<close> and \<open>j\<close> among all \<open>n - m + 1\<close>
  subsequences of length \<open>m\<close>, at Chebyshev distance at most the tolerance, and \<open>A\<close> counts
  the ordered pairs of different subsequences of length \<open>m + 1\<close> (there are \<open>n - m\<close> of
  them) at distance at most the tolerance. The quotient and the logarithm are NumPy's:
  a zero count gives a non-finite result, not an exception.
\<close>

theorem sample_entropy_counts:
  assumes "1 \<le> m" "m + 1 < length rri" "0 \<le> r"
  shows "sample_entropy rri m r =
         Inr (np_neg (np_log (np_div
           (real (matching_pairs rri (m + 1) (np_mul (Fin r) (np_std rri)) (length rri - m) (length rri - m)))
           (real (matching_pairs rri m (np_mul (Fin r) (np_std rri)) (length rri - m) (length rri + 1 - m))))))"
proof -
  let ?r = "np_mul (Fin r) (np_std rri)"
  let ?n = "length rri"
  have ne: "rri \<noteq> []" using assms by auto
  have r0: "np_le (Fin 0) ?r"
    using ne assms(3) by (rule tolerance_nonneg)
  have self: "np_le (Fin (chebyshev (take m' (drop i rri)) (take m' (drop i rri)))) ?r"
    if "0 < m'" "i < ?n" for m' i
    using that r0 by (simp add: chebyshev_self)
  have b: "(\<Sum>x\<leftarrow>templates rri m (?n - m). int (count_within ?r x (templates rri m (?n + 1 - m))) - 1)
           = int (matching_pairs rri m ?r (?n - m) (?n + 1 - m))"
    using assms self by (intro sum_matches_pairs) auto
  have a: "(\<Sum>x\<leftarrow>templates rri (m + 1) (?n - m). int (count_within ?r x (templates rri (m + 1) (?n - m))) - 1)
           = int (matching_pairs rri (m + 1) ?r (?n - m) (?n - m))"
    using assms self by (intro sum_matches_pairs) auto
  have m0: "m \<noteq> 0" using assms by simp
  have eq: "?n + 1 - (m + 1) = ?n - m" by simp
  show ?thesis
    unfolding sample_entropy_def Let_def eq a b using m0 by simp
qed

lemma upt_small: "[0..<2] = [0, 1]" "[0..<3] = [0, 1, 2]"
  by (simp_all add: upt_conv_Cons)

lemma np_std_ones: "np_std [1, 1, 1, 1] = Fin 0"
  by (simp add: np_std_def mean_def)

lemma sample_entropy_ones: "sample_entropy [1, 1, 1, 1] 2 (1 / 5) = Inr (Fin (ln 2))"
  by (simp add: sample_entropy_def np_std_ones templates_def count_within_def chebyshev_def
      Let_def np_div_def upt_small ln_div)

lemma all_pairs_ones: "matching_pairs [1, 1, 1, 1] 2 (Fin 0) 3 3 = 6"
  by (simp add: matching_pairs_def chebyshev_def upt_small)

lemma longer_pairs_ones: "matching_pairs [1, 1, 1, 1] 3 (Fin 0) 2 2 = 2"
  by (simp add: matching_pairs_def chebyshev_def upt_small)

lemma code_pairs_ones: "matching_pairs [1, 1, 1, 1] 2 (Fin 0) 2 3 = 4"
  by (simp add: matching_pairs_def chebyshev_def upt_small)

text \<open>
  Claim C2 as stated fails on the code: counting the pairs among all three subsequences
  of length 2 of \<open>[1, 1, 1, 1]\<close> gives \<open>B = 6\<close> and \<open>-ln (2 / 6) = ln 3\<close>; the code leaves the
  last subsequence out of the first component, finds \<open>B = 4\<close> and returns \<open>ln 2\<close>.
\<close>

theorem sample_entropy_all_pairs_counterexample:
  "sample_entropy [1, 1, 1, 1] 2 (1 / 5)
   \<noteq> Inr (np_neg (np_log (np_div
        (real (matching_pairs [1, 1, 1, 1] 3 (np_mul (Fin (1 / 5)) (np_std [1, 1, 1, 1])) 2 2))
        (real (matching_pairs [1, 1, 1, 1] 2 (np_mul (Fin (1 / 5)) (np_std [1, 1, 1, 1])) 3 3)))))"
proof -
  have "ln (2::real) \<noteq> ln 3" by simp
  then show ?thesis
    by (simp add: sample_entropy_ones np_std_ones all_pairs_ones longer_pairs_ones np_div_def ln_div)
qed

theorem sample_entropy_counts_witness:
  "sample_entropy [1, 1, 1, 1] 2 (1 / 5) = Inr (Fin (ln 2))
   \<and> matching_pairs [1, 1, 1, 1] 3 (Fin 0) 2 2 = 2
   \<and> matching_pairs [1, 1, 1, 1] 2 (Fin 0) 2 3 = 4"
proof -
  have "length [1, 1, 1, 1 :: real] - 2 = 2" "length [1, 1, 1, 1 :: real] + 1 - 2 = 3" "(2::nat) + 1 = 3"
    "np_mul (Fin (1 / 5)) (Fin 0) = Fin 0"
    by simp_all
  note eqs = this
  have "sample_entropy [1, 1, 1, 1] 2 (1 / 5)
        = Inr (np_neg (np_log (np_div (real (matching_pairs [1, 1, 1, 1] 3 (Fin 0) 2 2))
                                      (real (matching_pairs [1, 1, 1, 1] 2 (Fin 0) 2 3)))))"
    using sample_entropy_counts [of 2 "[1, 1, 1, 1]" "1 / 5"]
    unfolding eqs np_std_ones by simp
  then show ?thesis
    by (simp add: longer_pairs_ones code_pairs_ones np_div_def ln_div)
qed

subsection \<open>Shift invariance of the entropies\<close>













subsection \<open>Approximate entropy\<close>

lemma np_sum_Fin_aux: "foldl np_add (Fin a) (map Fin xs) = Fin (a + sum_list xs)"
  by (induction xs arbitrary: a) (simp_all add: add.assoc)

lemma np_sum_Fin: "np_sum (map Fin xs) = Fin (sum_list xs)"
  by (simp add: np_sum_def np_sum_Fin_aux)

lemma count_within_self:
  assumes "x \<in> set xs" "x \<noteq> []" "np_le (Fin 0) r"
  shows "1 \<le> count_within r x xs"
proof -
  have "x \<in> set (filter (\<lambda>x_j. np_le (Fin (chebyshev x x_j)) r) xs)"
    using assms by (simp add: chebyshev_self)
  then have "0 < count_within r x xs"
    unfolding count_within_def by (rule length_pos_if_in_set)
  then show ?thesis by simp
qed

lemma templates_nonempty_rows:
  assumes "x \<in> set (templates rri m (length rri + 1 - m))" "1 \<le> m"
  shows "x \<noteq> []"
  using assms by (auto simp: templates_def)

lemma phi_C_lower:
  assumes "1 \<le> m" "m \<le> length rri" "np_le (Fin 0) r" "c \<in> set (phi_C rri r m)"
  shows "1 / (real (length rri) - real m + 1) \<le> c \<and> 0 < c"
proof -
  let ?x = "templates rri m (length rri + 1 - m)"
  let ?d = "real (length rri) - real m + 1"
  obtain x_i where x_i: "x_i \<in> set ?x" and c: "c = real (count_within r x_i ?x) / ?d"
    using assms(4) by (auto simp: phi_C_def Let_def)
  have d: "0 < ?d" using assms(2) by simp
  have "x_i \<noteq> []"
    using x_i assms(1) by (rule templates_nonempty_rows)
  then have "1 \<le> count_within r x_i ?x"
    using x_i assms(3) by (intro count_within_self)
  then have "1 \<le> real (count_within r x_i ?x)" by simp
  then have "1 / ?d \<le> c"
    unfolding c using d by (intro divide_right_mono) simp_all
  moreover have "0 < 1 / ?d" using d by simp
  ultimately show ?thesis by linarith
qed

lemma phi_finite:
  assumes "1 \<le> m" "m \<le> length rri" "np_le (Fin 0) r"
  shows "phi rri r m = Inr (Fin ((\<Sum>c\<leftarrow>phi_C rri r m. ln c) / (real (length rri) - real m + 1)))"
proof -
  have "map (\<lambda>c. np_log (Fin c)) (phi_C rri r m) = map Fin (map ln (phi_C rri r m))"
    using phi_C_lower [OF assms] by (simp add: o_def)
  then have "np_sum (map (\<lambda>c. np_log (Fin c)) (phi_C rri r m)) = Fin (\<Sum>c\<leftarrow>phi_C rri r m. ln c)"
    by (simp only: np_sum_Fin)
  moreover have "real (length rri) - real m + 1 \<noteq> 0" "m \<noteq> 0"
    using assms by simp_all
  ultimately show ?thesis
    by (simp add: phi_def Let_def)
qed

lemma approximate_entropy_finite:
  assumes "1 \<le> m" "m + 1 \<le> length rri" "0 \<le> r"
  shows "approximate_entropy rri m r =
     Inr (Fin ((\<Sum>c\<leftarrow>phi_C rri (np_mul (Fin r) (np_std rri)) m. ln c) / (real (length rri) - real m + 1)
             - (\<Sum>c\<leftarrow>phi_C rri (np_mul (Fin r) (np_std rri)) (m + 1). ln c) / (real (length rri) - real m)))"
proof -
  have "rri \<noteq> []" using assms by auto
  then have r0: "np_le (Fin 0) (np_mul (Fin r) (np_std rri))"
    using assms(3) by (rule tolerance_nonneg)
  have p: "phi rri (np_mul (Fin r) (np_std rri)) m = Inr (Fin ((\<Sum>c\<leftarrow>phi_C rri (np_mul (Fin r) (np_std rri)) m. ln c) / (real (length rri) - real m + 1)))"
    using assms r0 by (intro phi_finite) simp_all
  have q: "phi rri (np_mul (Fin r) (np_std rri)) (m + 1) = Inr (Fin ((\<Sum>c\<leftarrow>phi_C rri (np_mul (Fin r) (np_std rri)) (m + 1). ln c) / (real (length rri) - real (m + 1) + 1)))"
    using assms r0 by (intro phi_finite) simp_all
  show ?thesis
    unfolding approximate_entropy_def Let_def p q by (simp add: np_sub_def)
qed

lemma np_std_steps: "np_std [0, 0, 3, 3] = Fin (3 / 2)"
proof -
  have "sqrt (9 / 4) = 3 / 2"
    by (rule real_sqrt_unique) (simp_all add: power2_eq_square)
  then show ?thesis
    by (simp add: np_std_def mean_def power2_eq_square)
qed

lemma sample_entropy_steps: "sample_entropy [0, 0, 3, 3] 2 (1 / 5) = Inr NaN"
  by (simp add: sample_entropy_def np_std_steps templates_def count_within_def chebyshev_def
      Let_def np_div_def upt_small)

text \<open>
  Claim C10. For an RRI sequence of length \<open>n \<ge> m + 1\<close> and embedding dimension
  \<open>m \<ge> 1\<close>, with the tolerance 0.2 times the standard deviation, \<open>approximate_entropy\<close>
  divides by no zero and takes no logarithm of zero: both denominators \<open>n - m + 1\<close> and
  \<open>n - m\<close> are non-zero, every element of the list \<open>C\<close> of \<open>_phi(m)\<close> is at least
  \<open>1 / (n - m + 1)\<close> and positive, every element of the list \<open>C\<close> of \<open>_phi(m + 1)\<close> is at
  least \<open>1 / (n - m)\<close> and positive, and the result is a finite number. Sample entropy
  has a degenerate case: on \<open>[0, 0, 3, 3]\<close> both of its counts are zero and it returns NaN.
\<close>

theorem approximate_entropy_well_defined:
  assumes "1 \<le> m" "m + 1 \<le> length rri"
  shows "real (length rri) - real m + 1 \<noteq> 0 \<and> real (length rri) - real m \<noteq> 0
    \<and> (\<forall>c\<in>set (phi_C rri (np_mul (Fin (1 / 5)) (np_std rri)) m).
          1 / (real (length rri) - real m + 1) \<le> c \<and> 0 < c)
    \<and> (\<forall>c\<in>set (phi_C rri (np_mul (Fin (1 / 5)) (np_std rri)) (m + 1)).
          1 / (real (length rri) - real m) \<le> c \<and> 0 < c)
    \<and> (\<exists>v. approximate_entropy rri m (1 / 5) = Inr (Fin v))
    \<and> sample_entropy [0, 0, 3, 3] 2 (1 / 5) = Inr NaN"
proof -
  let ?r = "np_mul (Fin (1 / 5)) (np_std rri)"
  have "rri \<noteq> []" using assms by auto
  then have r0: "np_le (Fin 0) ?r"
    by (rule tolerance_nonneg) simp
  have c1: "1 / (real (length rri) - real m + 1) \<le> c \<and> 0 < c" if "c \<in> set (phi_C rri ?r m)" for c
    using assms r0 that by (intro phi_C_lower) simp_all
  have c2: "1 / (real (length rri) - real m) \<le> c \<and> 0 < c" if "c \<in> set (phi_C rri ?r (m + 1))" for c
    using phi_C_lower [of "m + 1" rri ?r c] assms r0 that by simp
  have fin: "\<exists>v. approximate_entropy rri m (1 / 5) = Inr (Fin v)"
    using approximate_entropy_finite [of m rri "1 / 5"] assms by simp
  have d: "real (length rri) - real m + 1 \<noteq> 0" "real (length rri) - real m \<noteq> 0"
    using assms by simp_all
  show ?thesis
    using c1 c2 fin d sample_entropy_steps by blast
qed

theorem approximate_entropy_well_defined_witness:
  "(1::nat) \<le> 2 \<and> (2::nat) + 1 \<le> length [0, 0, 3, 3 :: real]
   \<and> (\<exists>v. approximate_entropy [0, 0, 3, 3] 2 (1 / 5) = Inr (Fin v))"
  using approximate_entropy_well_defined [of 2 "[0, 0, 3, 3]"] by simp

subsection \<open>Band aggregator\<close>















subsection \<open>Geometrical features\<close>

lemma and_then_Inr: "and_then m f = Inr y \<Longrightarrow> \<exists>x. m = Inr x \<and> f x = Inr y"
  by (cases m) (simp_all add: and_then_def)





















text \<open>
  When \<open>compute_geometrical\<close> returns and when it raises: with SciPy's interpolation it
  returns for every sequence with two different intervals, and it raises \<open>ValueError\<close>
  for a constant sequence, whose histogram has a single edge and no bin.
\<close>

lemma np_arange_length: "length (np_arange start stop step) = nat \<lceil>(stop - start) / step\<rceil>"
  by (simp add: np_arange_def)

lemma hist_bins_constant:
  assumes "0 < binsize" "Min (set rri) = Max (set rri)"
  shows "hist_bins rri binsize = [Min (set rri)]"
proof -
  have "\<lceil>(Max (set rri) + binsize - Min (set rri)) / binsize\<rceil> = 1"
    using assms by simp
  then show ?thesis
    by (simp add: hist_bins_def np_arange_def)
qed

lemma compute_geometrical_constant:
  assumes "0 < binsize" "rri \<noteq> []" "Min (set rri) = Max (set rri)"
  shows "compute_geometrical interp1d rri binsize = Inl (ValueError Zero_size)"
proof -
  have "hist_bins rri (binsize * 1000) = [Min (set rri)]"
    using assms by (intro hist_bins_constant) simp_all
  then show ?thesis
    using assms(2) by (simp add: compute_geometrical_def Let_def np_histogram_def)
qed

lemma hist_bins_two:
  assumes "0 < binsize" "Min (set rri) < Max (set rri)"
  shows "2 \<le> length (hist_bins rri binsize)"
proof -
  have "1 < (Max (set rri) + binsize - Min (set rri)) / binsize"
    using assms by (simp add: field_simps)
  then have "1 < \<lceil>(Max (set rri) + binsize - Min (set rri)) / binsize\<rceil>"
    by (simp add: less_ceiling_iff)
  then have "2 \<le> nat \<lceil>(Max (set rri) + binsize - Min (set rri)) / binsize\<rceil>"
    by linarith
  then show ?thesis
    by (simp only: hist_bins_def np_arange_length)
qed

lemma hist_bins_range:
  assumes "0 < binsize" "x \<in> set (hist_bins rri binsize)"
  shows "Min (set rri) \<le> x \<and> x < Max (set rri) + binsize"
proof -
  let ?v = "(Max (set rri) + binsize - Min (set rri)) / binsize"
  obtain i where i: "i < nat \<lceil>?v\<rceil>" and x: "x = Min (set rri) + real i * binsize"
    using assms(2) by (auto simp: hist_bins_def np_arange_def)
  have "real i < ?v"
    using i by linarith
  then have "real i * binsize < Max (set rri) + binsize - Min (set rri)"
    using assms(1) by (simp add: field_simps)
  moreover have "0 \<le> real i * binsize"
    using assms(1) by simp
  ultimately show ?thesis
    unfolding x by linarith
qed

lemma triangle_error_scipy:
  assumes "0 < binsize" "tmin = Min (set rri)" "tmax = Max (set rri)" "tmin \<le> n'"
  shows "\<exists>e. triangle_error scipy_interp1d_linear tmin tmax binsize max_count
                (hist_bins rri binsize) hist peak_edge n' m' = Inr e"
proof -
  have "\<not> list_ex (\<lambda>x. x < tmin \<or> tmax + binsize < x) (hist_bins rri binsize)"
    using hist_bins_range [OF assms(1), of _ rri] assms(2,3)
    by (fastforce simp: list_ex_iff)
  then show ?thesis
    by (simp add: triangle_error_def scipy_interp1d_linear_def lib_def and_then_def)
qed

lemma tinn_row_total:
  assumes "\<And>m'. \<exists>e. err n' m' = Inr e"
  shows "\<exists>s. fold (tinn_update err n') ms (Inr st) = Inr s"
proof (induction ms arbitrary: st)
  case Nil
  show ?case by (rule exI [of _ st]) simp
next
  case (Cons b ms)
  obtain e where "err n' b = Inr e"
    using assms by blast
  then have "\<exists>s. tinn_update err n' b (Inr st) = Inr s"
    by (cases st) (simp add: tinn_update_def and_then_def)
  then obtain s where "tinn_update err n' b (Inr st) = Inr s" ..
  then show ?case
    using Cons.IH by simp
qed

lemma tinn_search_total:
  assumes "\<And>n' m'. n' \<in> set ns \<Longrightarrow> \<exists>e. err n' m' = Inr e"
  shows "\<exists>s. fold (\<lambda>n'. fold (tinn_update err n') ms) ns (Inr st) = Inr s"
  using assms
proof (induction ns arbitrary: st)
  case Nil
  show ?case by (rule exI [of _ st]) simp
next
  case (Cons a ns)
  obtain s where "fold (tinn_update err a) ms (Inr st) = Inr s"
    using tinn_row_total [of err a ms st] Cons.prems by auto
  then show ?case
    using Cons.IH [of s] Cons.prems by simp
qed

lemma compute_geometrical_returns:
  assumes "0 < binsize" "rri \<noteq> []" "Min (set rri) < Max (set rri)"
  shows "\<exists>hti tinn. compute_geometrical scipy_interp1d_linear rri binsize = Inr (hti, tinn)"
proof -
  let ?bs = "binsize * 1000"
  let ?bins = "hist_bins rri ?bs"
  let ?hist = "np_histogram rri ?bins"
  let ?err = "triangle_error scipy_interp1d_linear (Min (set rri)) (Max (set rri)) ?bs
                (Max (set ?hist)) ?bins ?hist (?bins ! np_argmax ?hist)"
  have bs: "0 < ?bs" using assms(1) by simp
  have ne: "rri \<noteq> []" by (rule assms(2))
  have "2 \<le> length ?bins"
    using bs assms(3) by (rule hist_bins_two)
  then have hist: "?hist \<noteq> []"
    by (simp add: np_histogram_def)
  have "\<exists>e. ?err n' m' = Inr e" if "n' \<in> set (take (np_argmax ?hist) ?bins)" for n' m'
  proof -
    have "n' \<in> set ?bins" using that by (rule in_set_takeD)
    then have "Min (set rri) \<le> n'"
      using hist_bins_range [OF bs] by blast
    then show ?thesis
      using bs by (intro triangle_error_scipy) simp_all
  qed
  then obtain s where
    "tinn_search ?err (take (np_argmax ?hist) ?bins) (drop (np_argmax ?hist + 1) ?bins) = Inr s"
    unfolding tinn_search_def using tinn_search_total by blast
  then show ?thesis
    using ne hist by (cases s) (simp add: compute_geometrical_def Let_def and_then_def)
qed

subsection \<open>Time-domain features\<close>

lemma np_amin_returns: "xs \<noteq> [] \<Longrightarrow> \<exists>v. np_amin xs = Inr v"
  by (cases xs) (simp_all add: np_amin_def)

lemma np_amax_returns: "xs \<noteq> [] \<Longrightarrow> \<exists>v. np_amax xs = Inr v"
  by (cases xs) (simp_all add: np_amax_def)

lemma heart_rate_features_keys:
  "heart_rate_features rri rri_diff = Inr fs \<Longrightarrow> map fst fs = hr_keys"
  by (auto simp: heart_rate_features_def Let_def hr_keys_def dest!: and_then_Inr)

lemma heart_rate_features_returns:
  assumes "rri \<noteq> []"
  shows "\<exists>fs. heart_rate_features rri rri_diff = Inr fs"
proof -
  let ?hr = "map (\<lambda>x. np_divide (Fin 60) (np_div x 1000)) rri"
  have "?hr \<noteq> []" using assms by simp
  then obtain lo hi where "np_amin ?hr = Inr lo" "np_amax ?hr = Inr hi"
    using np_amin_returns np_amax_returns by blast
  then show ?thesis
    by (simp add: heart_rate_features_def Let_def and_then_def)
qed

lemma heart_rate_features_empty: "heart_rate_features [] rri_diff = Inl (ValueError Zero_size)"
  by (simp add: heart_rate_features_def np_amin_def and_then_def)

lemma nn50_features_keys: "nn50_features rri_diff = Inr fs \<Longrightarrow> map fst fs = [''nn50'', ''pnn50'']"
  by (auto simp: nn50_features_def Let_def split: if_splits)

lemma nn50_features_returns: "rri_diff \<noteq> [] \<Longrightarrow> \<exists>fs. nn50_features rri_diff = Inr fs"
  by (simp add: nn50_features_def Let_def)

lemma nn50_features_empty: "nn50_features [] = Inl ZeroDivisionError"
  by (simp add: nn50_features_def)

lemma detrend_window_returns: "\<exists>d. detrend_window ext rri 2000 sf = Inr d"
  by (simp add: detrend_window_def Let_def)

lemma detrended_returns:
  "\<exists>d. (if detrend_rri
         then (case rri_detrended of
                 Some d \<Rightarrow> Inr d
               | None \<Rightarrow> detrend_window ext rri 2000 500)
         else Inr rri) = Inr d"
  using detrend_window_returns [of ext rri 500]
  by (cases rri_detrended; cases detrend_rri) simp_all

lemma and_then_raises:
  "and_then m f = Inl e \<Longrightarrow> m = Inl e \<or> (\<exists>x. m = Inr x \<and> f x = Inl e)"
  by (cases m) (simp_all add: and_then_def)

lemma lib_raises: "lib m = Inl e \<Longrightarrow> e = ValueError Library \<or> e = LibraryError"
  by (auto simp: lib_def split: sum.splits lib_error.splits)

lemma triangle_error_raises:
  "triangle_error interp1d tmin tmax binsize max_count bins hist peak_edge n' m' = Inl e
   \<Longrightarrow> e = ValueError Library \<or> e = LibraryError"
  by (auto simp: triangle_error_def dest!: and_then_raises lib_raises)

lemma tinn_update_raises:
  "tinn_update err n' m' st = Inl e \<Longrightarrow> st = Inl e \<or> err n' m' = Inl e"
  by (auto simp: tinn_update_def dest!: and_then_raises split: if_splits)

lemma tinn_row_raises:
  "fold (tinn_update err n') ms st = Inl e \<Longrightarrow> st = Inl e \<or> (\<exists>m'. err n' m' = Inl e)"
proof (induction ms arbitrary: st)
  case Nil
  then show ?case by simp
next
  case (Cons a ms)
  then have "tinn_update err n' a st = Inl e \<or> (\<exists>m'. err n' m' = Inl e)"
    by simp
  then show ?case
    using tinn_update_raises by blast
qed

lemma tinn_search_raises:
  "fold (\<lambda>n'. fold (tinn_update err n') ms) ns st = Inl e
   \<Longrightarrow> st = Inl e \<or> (\<exists>n' m'. err n' m' = Inl e)"
proof (induction ns arbitrary: st)
  case Nil
  then show ?case by simp
next
  case (Cons a ns)
  then have "fold (tinn_update err a) ms st = Inl e \<or> (\<exists>n' m'. err n' m' = Inl e)"
    by simp
  then show ?case
    using tinn_row_raises by blast
qed

lemma compute_geometrical_raises:
  assumes "compute_geometrical interp1d rri binsize = Inl e"
  shows "e = ValueError Zero_size \<or> e = ValueError Library \<or> e = LibraryError"
proof (cases "rri = [] \<or> np_histogram rri (hist_bins rri (binsize * 1000)) = []")
  case True
  with assms show ?thesis
    by (auto simp: compute_geometrical_def Let_def split: if_splits)
next
  case False
  let ?bins = "hist_bins rri (binsize * 1000)"
  let ?hist = "np_histogram rri ?bins"
  let ?err = "triangle_error interp1d (Min (set rri)) (Max (set rri)) (binsize * 1000)
                (Max (set ?hist)) ?bins ?hist (?bins ! np_argmax ?hist)"
  from assms False have
    "and_then (tinn_search ?err (take (np_argmax ?hist) ?bins) (drop (np_argmax ?hist + 1) ?bins))
       (\<lambda>(error_min, n, m). Inr (np_div (real (length rri)) (real (Max (set ?hist))), m - n))
     = Inl e"
    by (simp add: compute_geometrical_def Let_def)
  then have "tinn_search ?err (take (np_argmax ?hist) ?bins) (drop (np_argmax ?hist + 1) ?bins) = Inl e"
    by (auto dest!: and_then_raises)
  then obtain n' m' where "?err n' m' = Inl e"
    unfolding tinn_search_def by (auto dest!: tinn_search_raises)
  then show ?thesis
    using triangle_error_raises by blast
qed

lemma heart_rate_features_raises:
  "heart_rate_features rri rri_diff = Inl e \<Longrightarrow> e = ValueError Zero_size"
  by (auto simp: heart_rate_features_def Let_def np_amin_def np_amax_def and_then_def
      split: list.splits sum.splits)

lemma nn50_features_raises: "nn50_features rri_diff = Inl e \<Longrightarrow> e = ZeroDivisionError"
  by (auto simp: nn50_features_def Let_def split: if_splits)

text \<open>The four blocks of \<open>hrv_timedomain\<close> after the duration check.\<close>

lemma hrv_timedomain_blocks:
  assumes "\<not> np_lt (default_duration rri duration) (Fin 10)"
    and "(if detrend_rri
          then (case rri_detrended of
                  Some d \<Rightarrow> Inr d
                | None \<Rightarrow> detrend_window ext rri 2000 500)
          else Inr rri) = Inr rri_det"
  shows "hrv_timedomain ext (Some rri) duration detrend_rri rri_detrended =
     and_then (if np_le (Fin 10) (default_duration rri duration)
               then heart_rate_features rri (np_diff rri_det) else Inr []) (\<lambda>out10.
     and_then (if np_le (Fin 20) (default_duration rri duration)
               then nn50_features (np_diff rri_det) else Inr []) (\<lambda>out20.
     and_then (if np_le (Fin 60) (default_duration rri duration)
               then Inr [(''sdnn'', Scalar (np_std rri_det))] else Inr []) (\<lambda>out60.
     and_then (if np_le (Fin 90) (default_duration rri duration)
               then and_then (compute_geometrical (interp1d_linear ext) rri (1 / 128)) (\<lambda>(hti, tinn).
                      Inr [(''hti'', Scalar hti), (''tinn'', Scalar (Fin tinn))])
               else Inr []) (\<lambda>out90.
       Inr (out10 @ out20 @ out60 @ out90)))))"
  using assms(1) unfolding hrv_timedomain_def option.case assms(2) Let_def
  by (simp add: and_then_def)

lemma hrv_timedomain_too_short:
  "hrv_timedomain ext (Some rri) duration detrend_rri rri_detrended = Inl (ValueError Too_short)
   \<longleftrightarrow> np_lt (default_duration rri duration) (Fin 10)"
proof
  obtain d where d: "(if detrend_rri
                    then (case rri_detrended of
                            Some d \<Rightarrow> Inr d
                          | None \<Rightarrow> detrend_window ext rri 2000 500)
                    else Inr rri) = Inr d"
    using detrended_returns by blast
  {
    assume short: "np_lt (default_duration rri duration) (Fin 10)"
    show "hrv_timedomain ext (Some rri) duration detrend_rri rri_detrended = Inl (ValueError Too_short)"
      using short unfolding hrv_timedomain_def option.case d Let_def
      by (simp add: and_then_def)
  }
  {
    assume err: "hrv_timedomain ext (Some rri) duration detrend_rri rri_detrended = Inl (ValueError Too_short)"
    show "np_lt (default_duration rri duration) (Fin 10)"
    proof (rule ccontr)
      assume long: "\<not> np_lt (default_duration rri duration) (Fin 10)"
      from err show False
        unfolding hrv_timedomain_blocks [OF long d]
        by (auto dest!: and_then_raises heart_rate_features_raises nn50_features_raises
              compute_geometrical_raises split: if_splits)
    qed
  }
qed

lemma hrv_timedomain_keys:
  assumes "hrv_timedomain ext (Some rri) duration detrend_rri rri_detrended = Inr out"
  shows "map fst out = tier_keys (default_duration rri duration)"
proof -
  obtain d where d: "(if detrend_rri
                    then (case rri_detrended of
                            Some d \<Rightarrow> Inr d
                          | None \<Rightarrow> detrend_window ext rri 2000 500)
                    else Inr rri) = Inr d"
    using detrended_returns by blast
  have long: "\<not> np_lt (default_duration rri duration) (Fin 10)"
    using assms hrv_timedomain_too_short [of ext rri duration detrend_rri rri_detrended]
    by auto
  from assms show ?thesis
    unfolding hrv_timedomain_blocks [OF long d] tier_keys_def
    by (auto dest!: and_then_Inr heart_rate_features_keys nn50_features_keys split: if_splits)
qed


lemma tier_keys_members:
  "''nn50'' \<in> set (tier_keys d) \<longleftrightarrow> np_le (Fin 20) d"
  "''pnn50'' \<in> set (tier_keys d) \<longleftrightarrow> np_le (Fin 20) d"
  "''sdnn'' \<in> set (tier_keys d) \<longleftrightarrow> np_le (Fin 60) d"
  "''hti'' \<in> set (tier_keys d) \<longleftrightarrow> np_le (Fin 90) d"
  "''tinn'' \<in> set (tier_keys d) \<longleftrightarrow> np_le (Fin 90) d"
  by (simp_all add: tier_keys_def hr_keys_def)

lemma np_le_Fin_trans: "x \<le> y \<Longrightarrow> np_le (Fin y) d \<Longrightarrow> np_le (Fin x) d"
  by (cases d) simp_all

lemma np_le_not_lt: "np_le (Fin x) d \<Longrightarrow> \<not> np_lt d (Fin x)"
  by (cases d) simp_all

lemma np_diff_nonempty: "2 \<le> length xs \<Longrightarrow> np_diff xs \<noteq> []"
  using np_diff_length [of xs] by (cases "np_diff xs") auto

lemma hrv_timedomain_blocks_raw:
  assumes "\<not> np_lt (default_duration rri duration) (Fin 10)"
  shows "hrv_timedomain ext (Some rri) duration False rri_detrended =
     and_then (if np_le (Fin 10) (default_duration rri duration)
               then heart_rate_features rri (np_diff rri) else Inr []) (\<lambda>out10.
     and_then (if np_le (Fin 20) (default_duration rri duration)
               then nn50_features (np_diff rri) else Inr []) (\<lambda>out20.
     and_then (if np_le (Fin 60) (default_duration rri duration)
               then Inr [(''sdnn'', Scalar (np_std rri))] else Inr []) (\<lambda>out60.
     and_then (if np_le (Fin 90) (default_duration rri duration)
               then and_then (compute_geometrical (interp1d_linear ext) rri (1 / 128)) (\<lambda>(hti, tinn).
                      Inr [(''hti'', Scalar hti), (''tinn'', Scalar (Fin tinn))])
               else Inr []) (\<lambda>out90.
       Inr (out10 @ out20 @ out60 @ out90)))))"
  by (rule hrv_timedomain_blocks [OF assms]) simp

lemma hrv_timedomain_constant:
  assumes "2 \<le> length rri" "Min (set rri) = Max (set rri)"
    and "np_le (Fin 90) (default_duration rri duration)"
  shows "hrv_timedomain ext (Some rri) duration False rri_detrended = Inl (ValueError Zero_size)"
proof -
  let ?d = "default_duration rri duration"
  have tiers: "np_le (Fin 10) ?d" "np_le (Fin 20) ?d" "np_le (Fin 60) ?d"
    using assms(3) by (auto intro: np_le_Fin_trans [of _ 90])
  have long: "\<not> np_lt ?d (Fin 10)"
    using tiers(1) by (rule np_le_not_lt)
  have ne: "rri \<noteq> []" using assms(1) by auto
  obtain fs where hr: "heart_rate_features rri (np_diff rri) = Inr fs"
    using heart_rate_features_returns [OF ne] by blast
  obtain gs where nn: "nn50_features (np_diff rri) = Inr gs"
    using nn50_features_returns [OF np_diff_nonempty [OF assms(1)]] by blast
  have geo: "compute_geometrical (interp1d_linear ext) rri (1 / 128) = Inl (ValueError Zero_size)"
    using ne assms(2) by (intro compute_geometrical_constant) simp_all
  show ?thesis
    unfolding hrv_timedomain_blocks_raw [OF long]
    by (simp add: tiers assms(3) hr nn geo and_then_def)
qed

lemma hrv_timedomain_returns:
  assumes "2 \<le> length rri" "Min (set rri) < Max (set rri)"
    and "\<not> np_lt (default_duration rri duration) (Fin 10)"
    and "interp1d_linear ext = scipy_interp1d_linear"
  shows "\<exists>out. hrv_timedomain ext (Some rri) duration False rri_detrended = Inr out"
proof -
  have ne: "rri \<noteq> []" using assms(1) by auto
  obtain fs where hr: "heart_rate_features rri (np_diff rri) = Inr fs"
    using heart_rate_features_returns [OF ne] by blast
  obtain gs where nn: "nn50_features (np_diff rri) = Inr gs"
    using nn50_features_returns [OF np_diff_nonempty [OF assms(1)]] by blast
  obtain hti tinn where geo: "compute_geometrical scipy_interp1d_linear rri (1 / 128) = Inr (hti, tinn)"
    using compute_geometrical_returns [OF _ ne assms(2), of "1 / 128"] by auto
  show ?thesis
    unfolding hrv_timedomain_blocks_raw [OF assms(3)] assms(4)
    by (simp add: hr nn geo and_then_def)
qed

text \<open>
  Three inputs: the five intervals of the specification's scenario, which last 2.575 s;
  an empty sequence with a duration of 15 s given; a single interval of 25 s.
\<close>

lemma hrv_timedomain_five_intervals:
  "hrv_timedomain ext (Some [500, 520, 510, 530, 515]) None detrend_rri rri_detrended
   = Inl (ValueError Too_short)"
  by (simp add: hrv_timedomain_too_short default_duration_def)

lemma hrv_timedomain_empty:
  "hrv_timedomain ext (Some []) (Some (Fin 15)) False None = Inl (ValueError Zero_size)"
  by (simp add: hrv_timedomain_blocks_raw default_duration_def heart_rate_features_empty and_then_def)

lemma hrv_timedomain_single_interval:
  "hrv_timedomain ext (Some [25000]) None False None = Inl ZeroDivisionError"
proof -
  obtain fs where "heart_rate_features [25000] (np_diff [25000]) = Inr fs"
    using heart_rate_features_returns [of "[25000]"] by auto
  then show ?thesis
    by (simp add: hrv_timedomain_blocks_raw default_duration_def nn50_features_empty and_then_def)
qed

text \<open>
  Claim C7 (as amended). For every RRI sequence, \<open>hrv_timedomain\<close> raises its
  insufficient-duration error if and only if the duration (given, or the sum of the
  intervals) is below 10 s; and whenever it returns, the names it returns are exactly
  those of the tiers the duration reaches: \<open>nn50\<close> and \<open>pnn50\<close> exactly when the duration is
  at least 20 s, \<open>sdnn\<close> exactly when it is at least 60 s, \<open>hti\<close> and \<open>tinn\<close> exactly when it
  is at least 90 s.
\<close>

theorem hrv_timedomain_tiers:
  "(hrv_timedomain ext (Some rri) duration detrend_rri rri_detrended = Inl (ValueError Too_short)
      \<longleftrightarrow> np_lt (default_duration rri duration) (Fin 10))
   \<and> (\<forall>out. hrv_timedomain ext (Some rri) duration detrend_rri rri_detrended = Inr out \<longrightarrow>
         map fst out = tier_keys (default_duration rri duration)
         \<and> (''nn50'' \<in> set (map fst out) \<longleftrightarrow> np_le (Fin 20) (default_duration rri duration))
         \<and> (''pnn50'' \<in> set (map fst out) \<longleftrightarrow> np_le (Fin 20) (default_duration rri duration))
         \<and> (''sdnn'' \<in> set (map fst out) \<longleftrightarrow> np_le (Fin 60) (default_duration rri duration))
         \<and> (''hti'' \<in> set (map fst out) \<longleftrightarrow> np_le (Fin 90) (default_duration rri duration))
         \<and> (''tinn'' \<in> set (map fst out) \<longleftrightarrow> np_le (Fin 90) (default_duration rri duration)))"
proof (intro conjI allI impI)
  show "hrv_timedomain ext (Some rri) duration detrend_rri rri_detrended = Inl (ValueError Too_short)
        \<longleftrightarrow> np_lt (default_duration rri duration) (Fin 10)"
    by (rule hrv_timedomain_too_short)
next
  fix out
  assume "hrv_timedomain ext (Some rri) duration detrend_rri rri_detrended = Inr out"
  then have keys: "map fst out = tier_keys (default_duration rri duration)"
    by (rule hrv_timedomain_keys)
  show "map fst out = tier_keys (default_duration rri duration)"
    by (rule keys)
  show "''nn50'' \<in> set (map fst out) \<longleftrightarrow> np_le (Fin 20) (default_duration rri duration)"
    unfolding keys by (rule tier_keys_members)
  show "''pnn50'' \<in> set (map fst out) \<longleftrightarrow> np_le (Fin 20) (default_duration rri duration)"
    unfolding keys by (rule tier_keys_members)
  show "''sdnn'' \<in> set (map fst out) \<longleftrightarrow> np_le (Fin 60) (default_duration rri duration)"
    unfolding keys by (rule tier_keys_members)
  show "''hti'' \<in> set (map fst out) \<longleftrightarrow> np_le (Fin 90) (default_duration rri duration)"
    unfolding keys by (rule tier_keys_members)
  show "''tinn'' \<in> set (map fst out) \<longleftrightarrow> np_le (Fin 90) (default_duration rri duration)"
    unfolding keys by (rule tier_keys_members)
qed

text \<open>
  Claim C7 as stated fails on the code: 149 intervals of 800 ms last 119.2 s, and
  \<open>hrv_timedomain\<close> raises all the same, from \<open>np.max\<close> of the empty histogram of a constant
  sequence in \<open>compute_geometrical\<close>.
\<close>

theorem hrv_timedomain_constant_counterexample:
  "\<forall>ext. hrv_timedomain ext (Some (replicate 149 800)) None False None = Inl (ValueError Zero_size)
         \<and> default_duration (replicate 149 800) None = Fin (1192 / 10)"
proof -
  have d: "default_duration (replicate 149 800) None = Fin (1192 / 10)"
    by (simp add: default_duration_def sum_list_replicate)
  have "Min (set (replicate 149 (800::real))) = Max (set (replicate 149 800))"
    by simp
  then have "hrv_timedomain ext (Some (replicate 149 800)) None False None = Inl (ValueError Zero_size)" for ext
    by (intro hrv_timedomain_constant) (simp_all add: d)
  then show ?thesis
    using d by simp
qed

theorem hrv_timedomain_tiers_witness:
  "\<forall>ext. \<exists>out. hrv_timedomain (with_scipy ext) (Some [800, 810, 810, 820]) (Some (Fin 100)) False None = Inr out
      \<and> map fst out = [''hr'', ''hr_min'', ''hr_max'', ''hr_minmax'', ''hr_avg'', ''rr_mean'', ''rmssd'',
                        ''nn50'', ''pnn50'', ''sdnn'', ''hti'', ''tinn'']"
proof
  fix ext
  have "\<exists>out. hrv_timedomain (with_scipy ext) (Some [800, 810, 810, 820]) (Some (Fin 100)) False None = Inr out"
    by (rule hrv_timedomain_returns) (simp_all add: default_duration_def with_scipy_def)
  then obtain out where
    out: "hrv_timedomain (with_scipy ext) (Some [800, 810, 810, 820]) (Some (Fin 100)) False None = Inr out"
    by blast
  have "map fst out = tier_keys (Fin 100)"
    using hrv_timedomain_tiers [of "with_scipy ext" "[800, 810, 810, 820]" "Some (Fin 100)" False None] out
    by (simp add: default_duration_def)
  then show "\<exists>out. hrv_timedomain (with_scipy ext) (Some [800, 810, 810, 820]) (Some (Fin 100)) False None = Inr out
      \<and> map fst out = [''hr'', ''hr_min'', ''hr_max'', ''hr_minmax'', ''hr_avg'', ''rr_mean'', ''rmssd'',
                        ''nn50'', ''pnn50'', ''sdnn'', ''hti'', ''tinn'']"
    using out by (simp add: tier_keys_def hr_keys_def)
qed

subsection \<open>Pipeline orchestrator\<close>















lemma hrv_unfold:
  assumes "parameters \<in> set [''auto'', ''time'', ''frequency'', ''non-linear'', ''all'']"
  shows "hrv ext rpeaks sampling_rate (Some rri) parameters filter_rri detrend_rri =
     and_then (if detrend_rri
               then and_then (detrend_window ext (if filter_rri then rri_filter rri 1200 else rri) 2000 500)
                      (\<lambda>d. Inr (Some d))
               else Inr None) (\<lambda>rri_det.
       extract_families ext parameters (if filter_rri then rri_filter rri 1200 else rri)
         (if parameters = ''all'' then PInf else Fin (sum_list rri / 1000)) detrend_rri rri_det)"
  using assms unfolding hrv_def Let_def by (simp add: and_then_def)

lemma hrv_unfold_rpeaks:
  assumes "parameters \<in> set [''auto'', ''time'', ''frequency'', ''non-linear'', ''all'']"
  shows "hrv ext (Some rpeaks) sampling_rate None parameters filter_rri detrend_rri =
     and_then (compute_rri rpeaks sampling_rate) (\<lambda>(rri, warned).
     and_then (if detrend_rri
               then and_then (detrend_window ext (if filter_rri then rri_filter rri 1200 else rri) 2000 500)
                      (\<lambda>d. Inr (Some d))
               else Inr None) (\<lambda>rri_det.
       extract_families ext parameters (if filter_rri then rri_filter rri 1200 else rri)
         (if parameters = ''all'' then PInf else Fin (sum_list rri / 1000)) detrend_rri rri_det))"
proof (cases "compute_rri rpeaks sampling_rate")
  case (Inl e)
  then show ?thesis
    using assms unfolding hrv_def Let_def by (simp add: and_then_def)
next
  case (Inr res)
  then show ?thesis
    using assms unfolding hrv_def Let_def by (cases res) (simp add: and_then_def)
qed






lemma hrv_timedomain_returns_below_90:
  assumes "rri \<noteq> []" "\<not> np_lt (default_duration rri duration) (Fin 10)"
    and "np_le (Fin 20) (default_duration rri duration) \<Longrightarrow> 2 \<le> length rri"
    and "\<not> np_le (Fin 90) (default_duration rri duration)"
  shows "\<exists>out. hrv_timedomain ext (Some rri) duration False rri_detrended = Inr out"
proof -
  obtain fs where hr: "heart_rate_features rri (np_diff rri) = Inr fs"
    using heart_rate_features_returns [OF assms(1)] by blast
  have "\<exists>gs. (if np_le (Fin 20) (default_duration rri duration)
               then nn50_features (np_diff rri) else Inr []) = Inr gs"
    using nn50_features_returns [OF np_diff_nonempty] assms(3) by auto
  then obtain gs where nn: "(if np_le (Fin 20) (default_duration rri duration)
               then nn50_features (np_diff rri) else Inr []) = Inr gs"
    by blast
  show ?thesis
    unfolding hrv_timedomain_blocks_raw [OF assms(2)] nn
    by (simp add: hr assms(4) and_then_def)
qed

text \<open>
  Claim C9. With \<open>filter_rri\<close> true (and a selector other than \<open>'all'\<close>, which has no
  gate), the families are run on the filtered sequence, and the sequence is detrended from
  it, while the duration that gates them is the sum in seconds of the sequence as it was
  before filtering, whether that sequence was passed as \<open>rri\<close> or computed from the beats:
  the intervals \<open>rri_filter\<close> removes still count toward the duration.
\<close>

theorem hrv_duration_before_filter:
  assumes "parameters \<in> set [''auto'', ''time'', ''frequency'', ''non-linear'']"
  shows "hrv ext rpeaks sampling_rate (Some rri) parameters True detrend_rri =
     and_then (if detrend_rri
               then and_then (detrend_window ext (rri_filter rri 1200) 2000 500) (\<lambda>d. Inr (Some d))
               else Inr None) (\<lambda>rri_det.
       extract_families ext parameters (rri_filter rri 1200) (Fin (sum_list rri / 1000))
         detrend_rri rri_det)
   \<and> hrv ext (Some beats) sampling_rate None parameters True detrend_rri =
     and_then (compute_rri beats sampling_rate) (\<lambda>(rri, warned).
     and_then (if detrend_rri
               then and_then (detrend_window ext (rri_filter rri 1200) 2000 500) (\<lambda>d. Inr (Some d))
               else Inr None) (\<lambda>rri_det.
       extract_families ext parameters (rri_filter rri 1200) (Fin (sum_list rri / 1000))
         detrend_rri rri_det))"
proof
  have valid: "parameters \<in> set [''auto'', ''time'', ''frequency'', ''non-linear'', ''all'']"
    and gated: "parameters \<noteq> ''all''"
    using assms by auto
  show "hrv ext rpeaks sampling_rate (Some rri) parameters True detrend_rri =
     and_then (if detrend_rri
               then and_then (detrend_window ext (rri_filter rri 1200) 2000 500) (\<lambda>d. Inr (Some d))
               else Inr None) (\<lambda>rri_det.
       extract_families ext parameters (rri_filter rri 1200) (Fin (sum_list rri / 1000))
         detrend_rri rri_det)"
    using hrv_unfold [OF valid, of ext rpeaks sampling_rate rri True detrend_rri] gated by simp
  show "hrv ext (Some beats) sampling_rate None parameters True detrend_rri =
     and_then (compute_rri beats sampling_rate) (\<lambda>(rri, warned).
     and_then (if detrend_rri
               then and_then (detrend_window ext (rri_filter rri 1200) 2000 500) (\<lambda>d. Inr (Some d))
               else Inr None) (\<lambda>rri_det.
       extract_families ext parameters (rri_filter rri 1200) (Fin (sum_list rri / 1000))
         detrend_rri rri_det))"
    using hrv_unfold_rpeaks [OF valid, of ext beats sampling_rate True detrend_rri] gated
    by (simp cong del: if_weak_cong)
qed

text \<open>
  An observable case: two short intervals and eight of 1300 ms sum to 11.42 s. The filter
  keeps the two short ones, which last 1.02 s, and yet the time-domain features of the
  10 s tier are returned; \<open>hrv_timedomain\<close> on the filtered sequence alone raises.
\<close>

theorem hrv_duration_before_filter_witness:
  "\<forall>ext. \<exists>td.
     hrv ext None 1000 (Some [500, 520, 1300, 1300, 1300, 1300, 1300, 1300, 1300, 1300]) ''time'' True False
       = Inr ((''rri'', Array [Fin 500, Fin 520]) # td, [])
     \<and> map fst td = [''hr'', ''hr_min'', ''hr_max'', ''hr_minmax'', ''hr_avg'', ''rr_mean'', ''rmssd'']
     \<and> hrv_timedomain ext (Some [500, 520]) None False None = Inl (ValueError Too_short)"
proof
  fix ext
  let ?rri = "[500, 520, 1300, 1300, 1300, 1300, 1300, 1300, 1300, 1300] :: real list"
  have filt: "rri_filter ?rri 1200 = [500, 520]"
    by (simp add: rri_filter_def)
  have dur: "sum_list ?rri / 1000 = 571 / 50"
    by simp
  have "\<exists>td. hrv_timedomain ext (Some [500, 520]) (Some (Fin (571 / 50))) False None = Inr td"
    by (rule hrv_timedomain_returns_below_90) (simp_all add: default_duration_def)
  then obtain td where td: "hrv_timedomain ext (Some [500, 520]) (Some (Fin (571 / 50))) False None = Inr td"
    by blast
  have "map fst td = tier_keys (default_duration [500, 520] (Some (Fin (571 / 50))))"
    using td by (rule hrv_timedomain_keys)
  then have keys: "map fst td = [''hr'', ''hr_min'', ''hr_max'', ''hr_minmax'', ''hr_avg'', ''rr_mean'', ''rmssd'']"
    by (simp add: tier_keys_def hr_keys_def default_duration_def)
  have short: "hrv_timedomain ext (Some [500, 520]) None False None = Inl (ValueError Too_short)"
    by (simp add: hrv_timedomain_too_short default_duration_def)
  have "hrv ext None 1000 (Some ?rri) ''time'' True False
        = Inr ((''rri'', Array [Fin 500, Fin 520]) # td, [])"
    unfolding hrv_duration_before_filter [of "''time''", simplified, THEN conjunct1] filt dur
    by (simp add: extract_families_def try_family_def and_then_def Let_def td)
  then show "\<exists>td.
     hrv ext None 1000 (Some ?rri) ''time'' True False
       = Inr ((''rri'', Array [Fin 500, Fin 520]) # td, [])
     \<and> map fst td = [''hr'', ''hr_min'', ''hr_max'', ''hr_minmax'', ''hr_avg'', ''rr_mean'', ''rmssd'']
     \<and> hrv_timedomain ext (Some [500, 520]) None False None = Inl (ValueError Too_short)"
    using keys short by (intro exI [of _ td] conjI) simp_all
qed

end
